theory Spec2Isabelle
  imports Complex_Main "HOL-Library.Word"
begin

section \<open>Errors\<close>

text \<open>
  Every \<^verbatim>\<open>assert\<close> and \<^verbatim>\<open>raise\<close> of \<^verbatim>\<open>rendering/_core.py\<close> is a value of
  this type, with the message the source gives it. The remaining constructors are the
  exceptions that Python, numpy and the OpenCL binding raise on behalf of the source:
  \<^verbatim>\<open>AttributeError\<close> for \<^verbatim>\<open>.dtype\<close>/\<^verbatim>\<open>.shape\<close> on a plain tuple or float,
  \<^verbatim>\<open>ValueError\<close> for a numpy shape or size mismatch or a type without a device
  spelling, \<^verbatim>\<open>TypeError\<close> for a list where a type is expected, \<^verbatim>\<open>KeyError\<close> for a
  missing dictionary key, \<^verbatim>\<open>OverflowError\<close> for an integer that does not fit 32 bits and
  \<^verbatim>\<open>CLError\<close> for a request the OpenCL runtime rejects.
\<close>

datatype error =
    AssertionError string
  | Exception string
  | ValueError
  | AttributeError
  | KeyError
  | TypeError
  | OverflowError
  | CLError string

fun and_then :: "error + 'a \<Rightarrow> ('a \<Rightarrow> error + 'b) \<Rightarrow> error + 'b" where
  "and_then (Inl e) f = Inl e"
| "and_then (Inr x) f = f x"

section \<open>Typed vector and matrix values\<close>

text \<open>
  The registered structured types the math library works on, and plain \<^verbatim>\<open>np.float32\<close>.
  \<^verbatim>\<open>float3\<close> is stored on four lanes (x, y, z and one padding lane), \<^verbatim>\<open>float4x4\<close>
  is the 16-lane \<^verbatim>\<open>float16\<close>. A lane is a 32-bit float in the source; here it is the
  real number that float holds. A Python number that enters an array is rounded to a
  32-bit float (\<open>to_float32\<close> below); arithmetic on lanes (\<^verbatim>\<open>/\<close>, \<^verbatim>\<open>@\<close>, \<^verbatim>\<open>*\<close>, \<^verbatim>\<open>+\<close>) is
  exact, so the rounding of an arithmetic result is not modelled.
\<close>

datatype dtype = float32 | float2 | float3 | float4 | float4x4

fun lanes_of :: "dtype \<Rightarrow> nat" where
  "lanes_of float32 = 1"
| "lanes_of float2 = 2"
| "lanes_of float3 = 4"
| "lanes_of float4 = 4"
| "lanes_of float4x4 = 16"

text \<open>
  A numpy array: its element type, its shape (\<open>[]\<close> for a 0-d value) and its lanes in
  row-major order. A well-formed array has \<open>prod_list shape * lanes_of dtype\<close> lanes.
\<close>

datatype ndarray = NDArray (dtype_of: dtype) (shape: "nat list") (lanes: "real list")

text \<open>
  What a host expression of the library evaluates to: a numpy array, a plain Python
  tuple of floats (which has neither \<^verbatim>\<open>.dtype\<close> nor \<^verbatim>\<open>.shape\<close>) or a Python float.
\<close>

datatype pyvalue = Array ndarray | PyTuple "real list" | PyFloat real

subsection \<open>Conversion of Python numbers to float32\<close>

text \<open>
  \<^verbatim>\<open>np.array(components, dtype=float2)\<close> (and likewise for the other types) stores each
  component as a 32-bit float: a Python number is rounded to the nearest value of the
  form \<open>n * 2 ^ (e - 23)\<close>, where \<open>e\<close> is the binary exponent of the number (at least
  \<open>-126\<close>) and \<open>n\<close> an integer, a tie going to the even \<open>n\<close>. A number whose magnitude
  reaches \<open>2 ^ 128 - 2 ^ 103\<close> becomes \<^verbatim>\<open>inf\<close>, which a real lane cannot express: the
  statements about the conversion are about numbers in \<open>float32_range\<close>.
\<close>

definition round_half_even :: "real \<Rightarrow> int" where
  "round_half_even r =
     (let f = \<lfloor>r\<rfloor>
      in if r - of_int f < 1 / 2 then f
         else if 1 / 2 < r - of_int f then f + 1
         else if even f then f else f + 1)"

definition pow2 :: "int \<Rightarrow> real" where
  "pow2 k = (if 0 \<le> k then 2 ^ nat k else 1 / 2 ^ nat (- k))"

definition to_float32 :: "real \<Rightarrow> real" where
  "to_float32 x =
     (if x = 0 then 0
      else let e = max \<lfloor>log 2 \<bar>x\<bar>\<rfloor> (- 126);
               ulp = pow2 (e - 23)
           in of_int (round_half_even (x / ulp)) * ulp)"



subsection \<open>The numpy operations the source calls\<close>

definition ravel :: "ndarray \<Rightarrow> ndarray" where
  "ravel a = NDArray (dtype_of a) [prod_list (shape a)] (lanes a)"

definition expand_dims :: "ndarray \<Rightarrow> ndarray" where
  \<comment> \<open>\<^verbatim>\<open>np.expand_dims(v, 0)\<close>\<close>
  "expand_dims a = NDArray (dtype_of a) (1 # shape a) (lanes a)"

definition view :: "dtype \<Rightarrow> ndarray \<Rightarrow> error + ndarray" where
  \<comment> \<open>\<^verbatim>\<open>a.view(dt)\<close> reinterprets the same bytes: with another item size the last axis is
      rescaled, which numpy refuses on a 0-d array or when the sizes do not divide.\<close>
  "view dt a =
     (if lanes_of dt = lanes_of (dtype_of a) then Inr (NDArray dt (shape a) (lanes a))
      else if shape a = [] then Inl ValueError
      else if lanes_of dt dvd last (shape a) * lanes_of (dtype_of a)
      then Inr (NDArray dt
                  (butlast (shape a) @ [last (shape a) * lanes_of (dtype_of a) div lanes_of dt])
                  (lanes a))
      else Inl ValueError)"

definition reshape :: "nat list \<Rightarrow> ndarray \<Rightarrow> error + ndarray" where
  "reshape sh a =
     (if prod_list sh = prod_list (shape a) then Inr (NDArray (dtype_of a) sh (lanes a))
      else Inl ValueError)"

definition slice_last :: "nat \<Rightarrow> ndarray \<Rightarrow> ndarray" where
  \<comment> \<open>\<^verbatim>\<open>a[..., 0:k]\<close>: the first \<open>k\<close> entries of every row of the last axis.\<close>
  "slice_last k a =
     NDArray (dtype_of a) (butlast (shape a) @ [min k (last (shape a))])
       (concat (map (\<lambda>i. take k (drop (i * last (shape a)) (lanes a)))
                    [0 ..< prod_list (butlast (shape a))]))"

definition item :: "ndarray \<Rightarrow> error + pyvalue" where
  \<comment> \<open>\<^verbatim>\<open>a.item()\<close>: only an array of exactly one element converts. The element
      comes back as a standard Python object: a \<^verbatim>\<open>float32\<close> as a Python float, an
      element of a structured type as a plain tuple of its fields (numpy's documented
      behaviour for void arrays with fields).\<close>
  "item a =
     (if prod_list (shape a) = 1
      then (if dtype_of a = float32 then
              (case lanes a of [x] \<Rightarrow> Inr (PyFloat x) | _ \<Rightarrow> Inl ValueError)
            else Inr (PyTuple (lanes a)))
      else Inl ValueError)"

definition item_float :: "ndarray \<Rightarrow> error + real" where
  \<comment> \<open>\<^verbatim>\<open>a.item()\<close> on an array of \<^verbatim>\<open>float32\<close>, read as the number it holds.\<close>
  "item_float a =
     (if prod_list (shape a) = 1
      then (case lanes a of [x] \<Rightarrow> Inr x | _ \<Rightarrow> Inl ValueError)
      else Inl ValueError)"

definition np_array :: "dtype \<Rightarrow> real list \<Rightarrow> error + pyvalue" where
  \<comment> \<open>\<^verbatim>\<open>np.array(t, dtype=dt)\<close> for a structured \<open>dt\<close> and a tuple \<open>t\<close> of float32
      lanes: the tuple is one element, so the result is 0-d; a tuple of another length
      than the type has fields is refused. The callers hand over lanes: a Python number
      converted by \<open>to_float32\<close>, or a lane read from an array, which is a 32-bit float
      already and is stored as it is.\<close>
  "np_array dt cs =
     (if length cs = lanes_of dt then Inr (Array (NDArray dt [] cs)) else Inl ValueError)"

subsection \<open>Constructors and conversion\<close>

text \<open>
  The constructors take \<^verbatim>\<open>*args\<close>: either the components, which are Python numbers,
  or one numpy array to be reinterpreted (the branch
  \<^verbatim>\<open>len(args) == 1 and isinstance(args[0], np.ndarray)\<close>).
\<close>

datatype call_args = Components "real list" | FromArray ndarray

fun make_float2 :: "call_args \<Rightarrow> error + pyvalue" where
  "make_float2 (FromArray a) = and_then (view float2 (ravel a)) item"
| "make_float2 (Components cs) = np_array float2 (map to_float32 cs)"

fun make_float3 :: "call_args \<Rightarrow> error + pyvalue" where
  "make_float3 (FromArray a) =
     and_then (view float32 (ravel a)) (\<lambda>v. np_array float3 (lanes v @ [0]))"
| "make_float3 (Components cs) = np_array float3 (map to_float32 (cs @ [0]))"

fun make_float4 :: "call_args \<Rightarrow> error + pyvalue" where
  "make_float4 (FromArray a) = and_then (view float4 (ravel a)) item"
| "make_float4 (Components cs) = np_array float4 (map to_float32 cs)"

fun make_float4x4 :: "call_args \<Rightarrow> error + pyvalue" where
  "make_float4x4 (FromArray a) = and_then (view float4x4 (ravel a)) item"
| "make_float4x4 (Components cs) = np_array float4x4 (map to_float32 cs)"

fun to_array :: "pyvalue \<Rightarrow> error + ndarray" where
  "to_array (Array v0) =
     (let v_shape = shape v0;
          v = (if shape v0 = [] then expand_dims v0 else v0)
      in if dtype_of v = float2 then
           and_then (view float32 v) (reshape (v_shape @ [2]))
         else if dtype_of v = float3 then
           and_then (and_then (view float32 v) (reshape (v_shape @ [4])))
             (\<lambda>r. Inr (slice_last 3 r))
         else if dtype_of v = float4 then
           and_then (view float32 v) (reshape (v_shape @ [4]))
         else if dtype_of v = float4x4 then
           and_then (view float32 v) (reshape (v_shape @ [4, 4]))
         else Inr v)"
| "to_array (PyTuple xs) = Inl AttributeError"
| "to_array (PyFloat x) = Inl AttributeError"

subsection \<open>Matrix product, dot product and normalisation\<close>

fun get_dtype :: "pyvalue \<Rightarrow> error + dtype" where
  \<comment> \<open>the attribute access \<^verbatim>\<open>v.dtype\<close>\<close>
  "get_dtype (Array a) = Inr (dtype_of a)"
| "get_dtype (PyTuple xs) = Inl AttributeError"
| "get_dtype (PyFloat x) = Inl AttributeError"

fun get_shape :: "pyvalue \<Rightarrow> error + nat list" where
  \<comment> \<open>the attribute access \<^verbatim>\<open>v.shape\<close>\<close>
  "get_shape (Array a) = Inr (shape a)"
| "get_shape (PyTuple xs) = Inl AttributeError"
| "get_shape (PyFloat x) = Inl AttributeError"

definition vecmat :: "real list \<Rightarrow> real list \<Rightarrow> real list" where
  \<comment> \<open>a row of four entries times a 4x4 matrix given row by row\<close>
  "vecmat r m =
     [r ! 0 * m ! 0 + r ! 1 * m ! 4 + r ! 2 * m ! 8 + r ! 3 * m ! 12,
      r ! 0 * m ! 1 + r ! 1 * m ! 5 + r ! 2 * m ! 9 + r ! 3 * m ! 13,
      r ! 0 * m ! 2 + r ! 1 * m ! 6 + r ! 2 * m ! 10 + r ! 3 * m ! 14,
      r ! 0 * m ! 3 + r ! 1 * m ! 7 + r ! 2 * m ! 11 + r ! 3 * m ! 15]"

definition matmul_op :: "ndarray \<Rightarrow> ndarray \<Rightarrow> error + ndarray" where
  \<comment> \<open>numpy's \<^verbatim>\<open>a @ b\<close> for the operands \<open>matmul\<close> builds: \<open>a\<close> ends in an axis of 4,
      \<open>b\<close> in axes 4, 4. When \<open>b\<close> is a single matrix every row of \<open>a\<close> is multiplied by
      it; a 1-d \<open>a\<close> takes the shape of \<open>b\<close> less one axis, any other \<open>a\<close> keeps its
      shape behind the leading axes of \<open>b\<close>. A stack of several (or of no) matrices
      either fails to broadcast or yields a number of products other than one, which
      the \<^verbatim>\<open>.item()\<close> that follows in \<open>matmul\<close> refuses: both are the same
      \<^verbatim>\<open>ValueError\<close>, reported here.\<close>
  "matmul_op a b =
     (if prod_list (shape b) = 16 then
        Inr (NDArray float32
               (if length (shape a) = 1 then butlast (shape b)
                else replicate (length (shape b) - length (shape a)) 1 @ shape a)
               (concat (map (\<lambda>i. vecmat (take 4 (drop (4 * i) (lanes a))) (lanes b))
                            [0 ..< length (lanes a) div 4])))
      else Inl ValueError)"

definition identity :: "error + pyvalue" where
  "identity = make_float4x4 (Components
     [1, 0, 0, 0,
      0, 1, 0, 0,
      0, 0, 1, 0,
      0, 0, 0, 1])"

definition unpack3 :: "ndarray \<Rightarrow> error + real \<times> real \<times> real" where
  \<comment> \<open>\<^verbatim>\<open>x, y, z = a\<close>: the first axis must have exactly three entries. Rows of an
      array of higher rank are not numbers and cannot fill the matrix's fields; the
      embedding reports them as the \<^verbatim>\<open>ValueError\<close> of a failed unpacking.\<close>
  "unpack3 a =
     (if shape a = [3]
      then (case lanes a of [x, y, z] \<Rightarrow> Inr (x, y, z) | _ \<Rightarrow> Inl ValueError)
      else Inl ValueError)"

definition translation :: "real \<times> real \<times> real \<Rightarrow> error + pyvalue" where
  \<comment> \<open>the \<^verbatim>\<open>return make_float4x4(...)\<close> of \<open>translate\<close>\<close>
  "translation p = (case p of (x, y, z) \<Rightarrow> make_float4x4 (Components
     [1, 0, 0, 0,
      0, 1, 0, 0,
      0, 0, 1, 0,
      x, y, z, 1]))"

text \<open>
  \<open>translate\<close> takes \<^verbatim>\<open>*args\<close>: one vector, or the three numbers \<open>x\<close>, \<open>y\<close>, \<open>z\<close>. Any
  other number of arguments fails to unpack into \<open>x, y, z\<close>.
\<close>

fun translate :: "pyvalue list \<Rightarrow> error + pyvalue" where
  "translate [v] = and_then (and_then (to_array v) unpack3) translation"
| "translate [PyFloat x, PyFloat y, PyFloat z] = translation (x, y, z)"
| "translate vs = Inl ValueError"

definition matmul :: "pyvalue \<Rightarrow> pyvalue \<Rightarrow> error + pyvalue" where
  "matmul a b =
     and_then (get_dtype a) (\<lambda>a_dtype.
       if a_dtype = float4 \<or> a_dtype = float4x4 then
         and_then (get_dtype b) (\<lambda>b_dtype.
           if b_dtype = float4x4 then
             (let a_is_vec = (a_dtype = float4) in
              and_then (to_array a) (\<lambda>a'.
              and_then (to_array b) (\<lambda>b'.
              and_then (matmul_op a' b') (\<lambda>c.
                if a_is_vec then make_float4 (FromArray c)
                else make_float4x4 (FromArray c)))))
           else Inl (AssertionError ''Second argument must be a matrix''))
       else Inl (AssertionError ''First vector must be a float4 or a matrix float4x4''))"

definition field :: "nat \<Rightarrow> ndarray \<Rightarrow> ndarray" where
  \<comment> \<open>\<^verbatim>\<open>v['x']\<close>, \<^verbatim>\<open>v['y']\<close>, ...: the \<open>i\<close>-th field of every element\<close>
  "field i a =
     NDArray float32 (shape a)
       (map (\<lambda>k. lanes a ! (k * lanes_of (dtype_of a) + i)) [0 ..< prod_list (shape a)])"

definition np_mul :: "ndarray \<Rightarrow> ndarray \<Rightarrow> ndarray" where
  \<comment> \<open>elementwise product of two arrays of one shape\<close>
  "np_mul a b = NDArray float32 (shape a) (map2 (*) (lanes a) (lanes b))"

definition np_add :: "ndarray \<Rightarrow> ndarray \<Rightarrow> ndarray" where
  \<comment> \<open>elementwise sum of two arrays of one shape\<close>
  "np_add a b = NDArray float32 (shape a) (map2 (+) (lanes a) (lanes b))"

definition np_div :: "ndarray \<Rightarrow> real \<Rightarrow> ndarray" where
  \<comment> \<open>\<^verbatim>\<open>a / l\<close> for a scalar \<open>l\<close>. numpy does not raise on \<open>l = 0\<close> (it yields
      \<^verbatim>\<open>nan\<close> or \<^verbatim>\<open>inf\<close> lanes, which real lanes cannot express); the statements below
      are about \<open>l \<noteq> 0\<close>.\<close>
  "np_div a l = NDArray (dtype_of a) (shape a) (map (\<lambda>x. x / l) (lanes a))"

definition dot :: "pyvalue \<Rightarrow> pyvalue \<Rightarrow> error + real" where
  "dot p1 p2 =
     and_then (get_dtype p1) (\<lambda>dt1. and_then (get_dtype p2) (\<lambda>dt2.
       if dt1 = dt2 then
         and_then (get_shape p1) (\<lambda>sh1. and_then (get_shape p2) (\<lambda>sh2.
           if sh1 = sh2 then
             (case (p1, p2) of
                (Array v1, Array v2) \<Rightarrow>
                  if dt1 = float2 then
                    item_float (np_add (np_mul (field 0 v1) (field 0 v2))
                                       (np_mul (field 1 v1) (field 1 v2)))
                  else if dt1 = float3 then
                    item_float (np_add (np_add (np_mul (field 0 v1) (field 0 v2))
                                               (np_mul (field 1 v1) (field 1 v2)))
                                       (np_mul (field 2 v1) (field 2 v2)))
                  else if dt1 = float4 then
                    item_float (np_add (np_add (np_add (np_mul (field 0 v1) (field 0 v2))
                                                       (np_mul (field 1 v1) (field 1 v2)))
                                               (np_mul (field 2 v1) (field 2 v2)))
                                       (np_mul (field 3 v1) (field 3 v2)))
                  else Inl (Exception ''Not valid dtype'')
              | _ \<Rightarrow> Inl AttributeError)
           else Inl (AssertionError
                  ''Can not apply dot product between different vector types'')))
       else Inl (AssertionError
              ''Can not apply dot product between different vector types'')))"

definition normalize_vec :: "pyvalue \<Rightarrow> error + pyvalue" where
  \<comment> \<open>\<^verbatim>\<open>normalize\<close> in the source (HOL has a constant of that name)\<close>
  "normalize_vec v0 =
     and_then (get_dtype v0) (\<lambda>v_dtype.
     and_then (dot v0 v0) (\<lambda>d.
       let l = sqrt d in
       and_then (to_array v0) (\<lambda>a.
         let v = np_div a l in
         if v_dtype = float3 then make_float3 (FromArray v)
         else and_then (view v_dtype (np_div v l)) (\<lambda>r. Inr (Array r)))))"

section \<open>Kernel source generation and dispatch\<close>

subsection \<open>Annotated host functions\<close>

text \<open>
  A type annotation of a host function, as \<^verbatim>\<open>inspect.signature\<close> reports it:
  \<open>Empty\<close> is \<^verbatim>\<open>inspect.Signature.empty\<close> (no annotation), \<open>NoneAnn\<close> is \<^verbatim>\<open>None\<close>,
  \<open>ListOf\<close> a list, \<open>Str\<close> a string (the image tokens such as
  \<^verbatim>\<open>'read_only image2d_t'\<close>) and \<open>DType c\<close> a numeric type that the type registry
  spells \<open>c\<close> on the device.
\<close>

datatype annotation =
    Empty
  | NoneAnn
  | ListOf "annotation list"
  | Str string
  | DType string

text \<open>
  What the generator reads of a host function: \<^verbatim>\<open>f.__name__\<close>, the parameters of its
  signature in order, its return annotation and \<^verbatim>\<open>inspect.getdoc(f)\<close>.
\<close>

record pyfunc =
  fn_name :: string
  fn_parameters :: "(string \<times> annotation) list"
  fn_return_annotation :: annotation
  fn_doc :: "string option"

definition r_image2d_t :: annotation where
  "r_image2d_t = Str ''read_only image2d_t''"

definition get_signature ::
  "pyfunc \<Rightarrow> error + (string \<times> annotation) list \<times> annotation" where
  "get_signature f =
     (if list_all (\<lambda>p. snd p \<noteq> Empty) (fn_parameters f)
      then Inr (fn_parameters f, fn_return_annotation f)
      else Inl (AssertionError
             ''All arguments needs to be annotated with a type descriptor''))"

fun dtype_to_ctype :: "annotation \<Rightarrow> error + string" where
  \<comment> \<open>\<^verbatim>\<open>cltools.dtype_to_ctype\<close>: the registry's spelling of a numeric type. It
      refuses \<^verbatim>\<open>None\<close> and any object that is no registered type. (A string never
      reaches this call: the caller returns it before.)\<close>
  "dtype_to_ctype (DType c) = Inr c"
| "dtype_to_ctype (ListOf xs) = Inl TypeError"
| "dtype_to_ctype a = Inl ValueError"

definition get_annotation_as_cltype :: "annotation \<Rightarrow> bool \<Rightarrow> error + string" where
  "get_annotation_as_cltype annotation assert_no_pointer =
     (if annotation = NoneAnn then Inr ''void''
      else
        and_then
          (case annotation of
             ListOf xs \<Rightarrow>
               (case xs of
                  [x] \<Rightarrow> Inr (True, x)
                | _ \<Rightarrow> Inl (AssertionError
                    ''parameters annotated with list should refer to a pointer to a single type, e.g. [int] is considered a int*.''))
           | _ \<Rightarrow> Inr (False, annotation))
          (\<lambda>pa. case pa of (is_pointer, a) \<Rightarrow>
             (case a of
                Str s \<Rightarrow> Inr s
              | _ \<Rightarrow>
                  if assert_no_pointer \<and> is_pointer then
                    Inl (AssertionError ''Can not use pointers in kernel auxiliary functions'')
                  else
                    and_then (dtype_to_ctype a) (\<lambda>c.
                      Inr ((if is_pointer then ''__global '' else []) @ c @
                           (if is_pointer then ''*'' else []))))))"

fun render_params :: "bool \<Rightarrow> (string \<times> annotation) list \<Rightarrow> error + string list" where
  \<comment> \<open>the generator expression \<^verbatim>\<open>_get_annotation_as_cltype(v.annotation, ...) + " " + v.name
      for k, v in s\<close>, stopping at the first parameter that raises\<close>
  "render_params assert_no_pointer [] = Inr []"
| "render_params assert_no_pointer (p # ps) =
     and_then (get_annotation_as_cltype (snd p) assert_no_pointer) (\<lambda>t.
     and_then (render_params assert_no_pointer ps) (\<lambda>ts.
       Inr ((t @ '' '' @ fst p) # ts)))"

fun join :: "string \<Rightarrow> string list \<Rightarrow> string" where
  "join sep [] = []"
| "join sep [x] = x"
| "join sep (x # y # ys) = x @ sep @ join sep (y # ys)"

definition getdoc :: "pyfunc \<Rightarrow> string" where
  \<comment> \<open>\<^verbatim>\<open>{inspect.getdoc(f)}\<close> inside the f-string: a missing docstring prints as
      \<^verbatim>\<open>None\<close>\<close>
  "getdoc f = (case fn_doc f of None \<Rightarrow> ''None'' | Some d \<Rightarrow> d)"

subsection \<open>The process-wide state\<close>

text \<open>
  A compiled program is identified by the source text it was built from.
\<close>

datatype program = Program string

text \<open>
  A host value passed to a kernel: a device array (\<^verbatim>\<open>cla.Array\<close>, named by the
  number of its device memory), a Python integer, or any other object. What the launch
  receives for it: the device memory of the array (\<^verbatim>\<open>a.data\<close>), the host copy of the
  array (\<^verbatim>\<open>a.get()\<close>), a 32-bit integer, or the host value as it was passed.
\<close>

datatype host_value = ClArray nat | PyInt int | Opaque string

datatype kernel_arg = Data nat | Got nat | Int32 "32 word" | Same host_value

text \<open>
  \<open>code\<close> is the module's \<^verbatim>\<open>__code__\<close>; \<open>programs\<close> holds the variable
  \<^verbatim>\<open>program\<close> of every call of \<open>kernel_main\<close> so far, in the order of the calls
  (each call creates its own, captured by the dispatcher it returns); \<open>builds\<close> lists
  the sources handed to \<^verbatim>\<open>cl.Program(__ctx__, __code__).build()\<close> and \<open>enqueued\<close> the
  launches issued on \<^verbatim>\<open>__queue__\<close>, oldest first: the program the kernel was taken from
  (\<^verbatim>\<open>program.__getattr__(name)\<close>), the kernel's name, the global size and the arguments.
\<close>

record kernel_state =
  code :: string
  programs :: "program option list"
  builds :: "string list"
  enqueued :: "(program \<times> string \<times> int list \<times> kernel_arg list) list"

definition prelude :: string where
  "prelude =
     ''\<newline>'' @
     ''#define float4x4 float16\<newline>'' @
     ''\<newline>'' @
     ''float4x4 transpose( float4x4 m )\<newline>'' @
     ''{\<newline>'' @
     ''    float4x4 t;\<newline>'' @
     ''    // transpose\<newline>'' @
     ''    t.even = m.lo;\<newline>'' @
     ''    t.odd = m.hi;\<newline>'' @
     ''    m.even = t.lo;\<newline>'' @
     ''    m.odd = t.hi;\<newline>'' @
     ''\<newline>'' @
     ''    return m;\<newline>'' @
     ''}\<newline>'' @
     ''\<newline>'' @
     ''float4 mul(float4 v, float4x4 m) {\<newline>'' @
     ''    return (float4)(dot(v, m.even.even), dot(v, m.odd.even), dot(v, m.even.odd), dot(v, m.odd.odd));    \<newline>'' @
     ''}\<newline>'' @
     ''\<newline>''"

definition initial_state :: kernel_state where
  "initial_state = \<lparr>code = prelude, programs = [], builds = [], enqueued = []\<rparr>"

subsection \<open>Declaring auxiliary functions and kernel entry points\<close>

definition wrapper :: "host_value list \<Rightarrow> error + host_value" where
  "wrapper args = Inl (Exception ''Can not call to this function from host.'')"

definition kernel_function ::
  "pyfunc \<Rightarrow> kernel_state \<Rightarrow> error + (host_value list \<Rightarrow> error + host_value) \<times> kernel_state"
where
  "kernel_function f st =
     and_then (get_signature f) (\<lambda>sr. case sr of (s, return_annotation) \<Rightarrow>
       (let name = fn_name f in
        and_then (get_annotation_as_cltype return_annotation True) (\<lambda>ret.
        and_then (render_params True s) (\<lambda>ps.
          Inr (wrapper,
               st\<lparr>code := code st @
                  ''\<newline>'' @ ret @ '' '' @ name @ ''('' @ join '', '' ps @ '') {\<newline>'' @
                  getdoc f @ ''\<newline>'' @
                  ''}\<newline>''\<rparr>)))))"

text \<open>
  A dispatcher is bound to the kernel's name and signature and to the \<^verbatim>\<open>program\<close>
  variable of the \<open>kernel_main\<close> call that made it (\<open>cell\<close>, its index in \<open>programs\<close>;
  \<open>kernel_main\<close> appends the variable, so the index of a dispatcher it returned is in
  range from then on).
\<close>

record Dispatcher =
  kernel_name :: string
  signature :: "(string \<times> annotation) list"
  cell :: nat

definition kernel_main :: "pyfunc \<Rightarrow> kernel_state \<Rightarrow> error + Dispatcher \<times> kernel_state" where
  "kernel_main f st =
     and_then (get_signature f) (\<lambda>sr. case sr of (s, return_annotation) \<Rightarrow>
       if return_annotation = Empty then
         (let name = fn_name f in
          and_then (render_params False s) (\<lambda>ps.
            Inr (\<lparr>kernel_name = name, signature = s, cell = length (programs st)\<rparr>,
                 st\<lparr>code := code st @
                      ''\<newline>__kernel void '' @ name @ ''('' @ join '', '' ps @ '') {\<newline>'' @
                      ''int thread_id = get_global_id(0);\<newline>'' @
                      getdoc f @ ''\<newline>'' @
                      ''}\<newline>    '',
                    programs := programs st @ [None]\<rparr>)))
       else Inl (AssertionError ''Kernel main function must return void''))"

subsection \<open>Dispatch\<close>

text \<open>
  The index of a dispatcher: an integer, or a list or tuple of integers.
\<close>

datatype thread_index = Threads int | Shape "int list"

definition Dispatcher_getitem :: "Dispatcher \<Rightarrow> thread_index \<Rightarrow> Dispatcher \<times> int" where
  \<comment> \<open>\<^verbatim>\<open>Dispatcher.__getitem__\<close>: the closure \<open>dispatch_call\<close> it returns is the
      dispatcher together with the resolved \<open>num_threads\<close>\<close>
  "Dispatcher_getitem d num_threads =
     (d, case num_threads of Shape ns \<Rightarrow> prod_list ns | Threads n \<Rightarrow> n)"

definition resolve_arg :: "host_value \<Rightarrow> annotation \<Rightarrow> error + kernel_arg" where
  \<comment> \<open>\<^verbatim>\<open>np.int32(a)\<close> refuses an integer outside the 32-bit signed range\<close>
  "resolve_arg a annotation =
     (case a of
        ClArray i \<Rightarrow> (case annotation of ListOf xs \<Rightarrow> Inr (Data i) | _ \<Rightarrow> Inr (Got i))
      | PyInt n \<Rightarrow>
          if - (2 ^ 31) \<le> n \<and> n < 2 ^ 31 then Inr (Int32 (word_of_int n))
          else Inl OverflowError
      | Opaque x \<Rightarrow> Inr (Same a))"

fun resolve_args :: "host_value list \<Rightarrow> (string \<times> annotation) list \<Rightarrow> error + kernel_arg list" where
  \<comment> \<open>\<^verbatim>\<open>[resolve_arg(a, v.annotation) for a, (k,v) in zip(args,s)]\<close>\<close>
  "resolve_args (a # as) (p # ps) =
     and_then (resolve_arg a (snd p)) (\<lambda>r.
     and_then (resolve_args as ps) (\<lambda>rs. Inr (r # rs)))"
| "resolve_args as ps = Inr []"

definition dispatch_call ::
  "(string \<Rightarrow> bool) \<Rightarrow> Dispatcher \<times> int \<Rightarrow> host_value list \<Rightarrow> kernel_state
     \<Rightarrow> (error + unit) \<times> kernel_state" where
  \<comment> \<open>\<open>compiles src\<close> says whether the device compiler accepts \<open>src\<close>; a failed build
      raises and leaves \<^verbatim>\<open>program\<close> unset. The kernel \<open>name\<close> is part of every source
      built after its declaration, so its lookup in the program succeeds. The launch
      is recorded as issued. An exception raised after the build leaves the built
      program in place.\<close>
  "dispatch_call compiles dn args st =
     (case dn of (d, num_threads) \<Rightarrow>
        (case programs st ! cell d of
           None \<Rightarrow>
             if compiles (code st) then
               (let st1 = st\<lparr>programs := (programs st)[cell d := Some (Program (code st))],
                             builds := builds st @ [code st]\<rparr>
                in case resolve_args args (signature d) of
                     Inl e \<Rightarrow> (Inl e, st1)
                   | Inr rs \<Rightarrow>
                       (Inr (), st1\<lparr>enqueued := enqueued st1 @
                                      [(Program (code st), kernel_name d, [num_threads], rs)]\<rparr>))
             else (Inl (CLError ''BUILD_PROGRAM_FAILURE''), st)
         | Some program \<Rightarrow>
             (case resolve_args args (signature d) of
                Inl e \<Rightarrow> (Inl e, st)
              | Inr rs \<Rightarrow>
                  (Inr (), st\<lparr>enqueued := enqueued st @
                                [(program, kernel_name d, [num_threads], rs)]\<rparr>))))"

section \<open>Device memory: clearing and scoped mapping\<close>

type_synonym byte = "8 word"

text \<open>
  The handles of the OpenCL binding, with the attributes the source reads. A buffer is
  \<^verbatim>\<open>cl.Buffer\<close> (\<^verbatim>\<open>b.offset\<close>, \<^verbatim>\<open>b.size\<close> in bytes), an image \<^verbatim>\<open>cl.Image\<close>
  (\<^verbatim>\<open>b.type\<close>, \<^verbatim>\<open>b.format\<close>, \<^verbatim>\<open>b.width\<close>, \<^verbatim>\<open>b.height\<close>, \<^verbatim>\<open>b.depth\<close>), a device array
  \<^verbatim>\<open>cla.Array\<close> (\<^verbatim>\<open>b.base_data\<close>, \<^verbatim>\<open>b.offset\<close>, \<^verbatim>\<open>b.shape\<close>, \<^verbatim>\<open>b.dtype\<close>). \<open>buf_id\<close> and
  \<open>img_id\<close> name the device memory behind the handle.
\<close>

datatype mem_object_type =
    BUFFER | IMAGE2D | IMAGE3D | IMAGE2D_ARRAY | IMAGE1D | IMAGE1D_ARRAY | IMAGE1D_BUFFER

fun type_code :: "mem_object_type \<Rightarrow> nat" where
  \<comment> \<open>the integer values of \<^verbatim>\<open>cl.mem_object_type\<close> (\<^verbatim>\<open>CL_MEM_OBJECT_*\<close>), which
      \<^verbatim>\<open>b.type < cl.mem_object_type.IMAGE3D\<close> compares\<close>
  "type_code BUFFER = 0x10F0"
| "type_code IMAGE2D = 0x10F1"
| "type_code IMAGE3D = 0x10F2"
| "type_code IMAGE2D_ARRAY = 0x10F3"
| "type_code IMAGE1D = 0x10F4"
| "type_code IMAGE1D_ARRAY = 0x10F5"
| "type_code IMAGE1D_BUFFER = 0x10F6"

datatype channel_order =
    ORDER_R | ORDER_RG | ORDER_RGB | ORDER_RGBA | ORDER_BGRA | ORDER_OTHER

datatype channel_type =
    FLOAT | SIGNED_INT32 | SIGNED_INT8 | UNSIGNED_INT32 | UNSIGNED_INT8 | UNORM_INT8
  | TYPE_OTHER

text \<open>
  The element type of a host view: the five numpy types of
  \<^verbatim>\<open>__CHANNEL_TYPE_TO_DTYPE__\<close>, or any other type with its name and item size.
\<close>

datatype host_dtype =
    np_float32 | np_int32 | np_int8 | np_uint32 | np_uint8 | np_other string nat

fun itemsize :: "host_dtype \<Rightarrow> nat" where
  "itemsize np_float32 = 4"
| "itemsize np_int32 = 4"
| "itemsize np_int8 = 1"
| "itemsize np_uint32 = 4"
| "itemsize np_uint8 = 1"
| "itemsize (np_other n k) = k"

record Buffer =
  buf_id :: nat
  buf_offset :: nat
  buf_size :: nat

record Image =
  img_id :: nat
  img_type :: mem_object_type
  img_channel_order :: channel_order
  img_channel_data_type :: channel_type
  img_width :: nat
  img_height :: nat
  img_depth :: nat

record DeviceArray =
  base_data :: Buffer
  arr_offset :: nat
  arr_shape :: "nat list"
  arr_dtype :: host_dtype

datatype mem_object = IsArray DeviceArray | IsBuffer Buffer | IsImage Image

text \<open>
  A fill value is a numpy array: its shape and its raw bytes (\<^verbatim>\<open>value.nbytes\<close> is
  their number). The default of \<open>clear\<close> is \<^verbatim>\<open>np.float32(0)\<close>, which
  \<^verbatim>\<open>np.array(value)\<close> turns into a 0-d array of four zero bytes.
\<close>

record fill_value =
  val_shape :: "nat list"
  val_bytes :: "byte list"

definition float32_zero :: fill_value where
  "float32_zero = \<lparr>val_shape = [], val_bytes = [0, 0, 0, 0]\<rparr>"

text \<open>
  The array a mapping hands to the host: the handle of its \<^verbatim>\<open>MemoryMap\<close> (the
  array's \<^verbatim>\<open>.base\<close>), the device memory it shows, the window mapped (byte offset and
  byte count for a buffer, origin and region for an image), its shape and element type.
\<close>

record mapped_array =
  map_handle :: nat
  map_mem :: nat
  map_window :: "nat list"
  map_shape :: "nat list"
  map_dtype :: host_dtype

text \<open>
  The device: the bytes of every buffer, the image fills issued so far (image, colour
  bytes, origin, region; pixel storage depends on the image format and is not
  modelled), the live host mappings (handle and device memory) and the next free handle.
\<close>

record device =
  contents :: "nat \<Rightarrow> byte list"
  image_fills :: "(nat \<times> byte list \<times> nat list \<times> nat list) list"
  mappings :: "(nat \<times> nat) list"
  next_handle :: nat

subsection \<open>The runtime calls\<close>

definition enqueue_fill_buffer ::
  "Buffer \<Rightarrow> byte list \<Rightarrow> nat \<Rightarrow> nat \<Rightarrow> device \<Rightarrow> (error + unit) \<times> device" where
  \<comment> \<open>\<^verbatim>\<open>cl.enqueue_fill_buffer(queue, mem, pattern, offset, size)\<close>, that is
      \<^verbatim>\<open>clEnqueueFillBuffer\<close>: the \<open>size\<close> bytes from \<open>offset\<close> on are overwritten with
      repetitions of the pattern. The pattern has 1, 2, 4, ..., 128 bytes, \<open>offset\<close>
      and \<open>size\<close> are multiples of its length and the region lies inside the buffer,
      or the call fails.\<close>
  "enqueue_fill_buffer mem pattern off sz dev =
     (if length pattern \<in> {1, 2, 4, 8, 16, 32, 64, 128}
         \<and> length pattern dvd off \<and> length pattern dvd sz
         \<and> off + sz \<le> buf_size mem
      then (Inr (),
            dev\<lparr>contents := (contents dev)(buf_id mem :=
                   take off (contents dev (buf_id mem)) @
                   concat (replicate (sz div length pattern) pattern) @
                   drop (off + sz) (contents dev (buf_id mem)))\<rparr>)
      else (Inl (CLError ''INVALID_VALUE''), dev))"

definition enqueue_fill_image ::
  "Image \<Rightarrow> fill_value \<Rightarrow> nat list \<Rightarrow> nat list \<Rightarrow> device \<Rightarrow> (error + unit) \<times> device" where
  \<comment> \<open>\<^verbatim>\<open>cl.enqueue_fill_image(queue, mem, color, origin, region)\<close>, recorded as issued\<close>
  "enqueue_fill_image mem color origin region dev =
     (Inr (), dev\<lparr>image_fills := image_fills dev @
                      [(img_id mem, val_bytes color, origin, region)]\<rparr>)"

definition new_mapping ::
  "nat \<Rightarrow> nat list \<Rightarrow> nat list \<Rightarrow> host_dtype \<Rightarrow> device \<Rightarrow> mapped_array \<times> device" where
  \<comment> \<open>a successful map: a fresh \<^verbatim>\<open>MemoryMap\<close> is live, and the host array over it is
      returned\<close>
  "new_mapping mem window sh dt dev =
     (\<lparr>map_handle = next_handle dev, map_mem = mem, map_window = window,
        map_shape = sh, map_dtype = dt\<rparr>,
      dev\<lparr>mappings := (next_handle dev, mem) # mappings dev,
          next_handle := Suc (next_handle dev)\<rparr>)"

definition enqueue_map_buffer ::
  "Buffer \<Rightarrow> nat \<Rightarrow> nat list \<Rightarrow> host_dtype \<Rightarrow> device \<Rightarrow> error + mapped_array \<times> device" where
  \<comment> \<open>\<^verbatim>\<open>cl.enqueue_map_buffer(queue, buf, flags, offset, shape, dtype)\<close>, blocking: the
      bytes mapped must lie inside the buffer\<close>
  "enqueue_map_buffer buf off sh dt dev =
     (if off + prod_list sh * itemsize dt \<le> buf_size buf
      then Inr (new_mapping (buf_id buf) [off, prod_list sh * itemsize dt] sh dt dev)
      else Inl (CLError ''INVALID_VALUE''))"

definition enqueue_map_image ::
  "Image \<Rightarrow> nat list \<Rightarrow> nat list \<Rightarrow> nat list \<Rightarrow> host_dtype \<Rightarrow> device
     \<Rightarrow> error + mapped_array \<times> device" where
  \<comment> \<open>\<^verbatim>\<open>cl.enqueue_map_image(queue, img, flags, origin, region, shape, dtype)\<close>, blocking\<close>
  "enqueue_map_image img origin region sh dt dev =
     Inr (new_mapping (img_id img) (origin @ region) sh dt dev)"

definition release :: "nat \<Rightarrow> device \<Rightarrow> (error + unit) \<times> device" where
  \<comment> \<open>\<^verbatim>\<open>MemoryMap.release()\<close>: unmaps; releasing a mapping that is not live fails\<close>
  "release h dev =
     (if h \<in> fst ` set (mappings dev)
      then (Inr (), dev\<lparr>mappings := filter (\<lambda>p. fst p \<noteq> h) (mappings dev)\<rparr>)
      else (Inl (CLError ''INVALID_VALUE''), dev))"

definition read_bytes :: "device \<Rightarrow> mapped_array \<Rightarrow> byte list" where
  \<comment> \<open>what the host reads through a mapped buffer: the bytes of its window\<close>
  "read_bytes dev m =
     take (map_window m ! 1) (drop (map_window m ! 0) (contents dev (map_mem m)))"

subsection \<open>clear and mapped\<close>

definition clear :: "mem_object \<Rightarrow> fill_value \<Rightarrow> device \<Rightarrow> (error + unit) \<times> device" where
  \<comment> \<open>A device array is no \<^verbatim>\<open>Buffer\<close> and has no \<^verbatim>\<open>width\<close>: the second branch
      raises on it.\<close>
  "clear b val dev =
     (case b of
        IsBuffer buf \<Rightarrow>
          enqueue_fill_buffer buf (val_bytes val) 0 (length (val_bytes val)) dev
      | IsImage img \<Rightarrow>
          (let val' = (if prod_list (val_shape val) \<le> 1
                       then \<lparr>val_shape = 4 # val_shape val,
                             val_bytes = concat (replicate 4 (val_bytes val))\<rparr>
                       else val)
           in enqueue_fill_image img val' [0, 0, 0]
                [img_width img, max 1 (img_height img), max 1 (img_depth img)] dev)
      | IsArray a \<Rightarrow> (Inl AttributeError, dev))"

fun CHANNEL_TYPE_TO_DTYPE :: "channel_type \<Rightarrow> error + host_dtype" where
  "CHANNEL_TYPE_TO_DTYPE FLOAT = Inr np_float32"
| "CHANNEL_TYPE_TO_DTYPE SIGNED_INT32 = Inr np_int32"
| "CHANNEL_TYPE_TO_DTYPE SIGNED_INT8 = Inr np_int8"
| "CHANNEL_TYPE_TO_DTYPE UNSIGNED_INT32 = Inr np_uint32"
| "CHANNEL_TYPE_TO_DTYPE UNSIGNED_INT8 = Inr np_uint8"
| "CHANNEL_TYPE_TO_DTYPE UNORM_INT8 = Inr np_int8"
| "CHANNEL_TYPE_TO_DTYPE TYPE_OTHER = Inl KeyError"

fun CHANNEL_ORDER_TO_COMPONENTS :: "channel_order \<Rightarrow> error + nat" where
  "CHANNEL_ORDER_TO_COMPONENTS ORDER_BGRA = Inr 4"
| "CHANNEL_ORDER_TO_COMPONENTS ORDER_RGBA = Inr 4"
| "CHANNEL_ORDER_TO_COMPONENTS ORDER_RGB = Inr 3"
| "CHANNEL_ORDER_TO_COMPONENTS ORDER_RG = Inr 2"
| "CHANNEL_ORDER_TO_COMPONENTS ORDER_R = Inr 1"
| "CHANNEL_ORDER_TO_COMPONENTS ORDER_OTHER = Inl KeyError"

definition mapped_enter :: "mem_object \<Rightarrow> device \<Rightarrow> error + mapped_array \<times> device" where
  \<comment> \<open>\<^verbatim>\<open>_ctx.__enter__\<close>; the array it returns carries the mapping as its base\<close>
  "mapped_enter b dev =
     (case b of
        IsImage img \<Rightarrow>
          and_then (CHANNEL_TYPE_TO_DTYPE (img_channel_data_type img)) (\<lambda>dtype.
          and_then (CHANNEL_ORDER_TO_COMPONENTS (img_channel_order img)) (\<lambda>cmps.
            (let sh0 = [img_depth img, img_height img, img_width img, cmps];
                 sh1 = (if type_code (img_type img) < type_code IMAGE3D then tl sh0 else sh0);
                 sh2 = (if type_code (img_type img) < type_code IMAGE2D then tl sh1 else sh1);
                 sh3 = (if cmps = 1 then butlast sh2 else sh2)
             in enqueue_map_image img [0, 0, 0]
                  [img_width img, max 1 (img_height img), max 1 (img_depth img)]
                  sh3 dtype dev)))
      | IsBuffer buf \<Rightarrow>
          enqueue_map_buffer buf (buf_offset buf) [buf_size buf] np_uint8 dev
      | IsArray a \<Rightarrow>
          enqueue_map_buffer (base_data a) (arr_offset a) (arr_shape a) (arr_dtype a) dev)"

definition mapped_exit :: "mapped_array \<Rightarrow> device \<Rightarrow> (error + unit) \<times> device" where
  \<comment> \<open>\<^verbatim>\<open>_ctx.__exit__\<close>: releases whatever the exception state is, and returns
      \<^verbatim>\<open>None\<close>, so an exception of the body is not suppressed\<close>
  "mapped_exit m dev = release (map_handle m) dev"

definition with_mapped ::
  "mem_object \<Rightarrow> (mapped_array \<Rightarrow> device \<Rightarrow> (error + 'a) \<times> device) \<Rightarrow> device
     \<Rightarrow> (error + 'a) \<times> device" where
  \<comment> \<open>\<^verbatim>\<open>with mapped(b) as m: body\<close>. When \<^verbatim>\<open>__enter__\<close> raises the body and
      \<^verbatim>\<open>__exit__\<close> do not run. Otherwise \<^verbatim>\<open>__exit__\<close> runs after the body, whether
      it returned or raised; an exception of \<^verbatim>\<open>__exit__\<close> replaces the body's outcome.\<close>
  "with_mapped b body dev =
     (case mapped_enter b dev of
        Inl e \<Rightarrow> (Inl e, dev)
      | Inr (m, dev1) \<Rightarrow>
          (case body m dev1 of
             (r, dev2) \<Rightarrow>
               (case mapped_exit m dev2 of
                  (Inl e, dev3) \<Rightarrow> (Inl e, dev3)
                | (Inr u, dev3) \<Rightarrow> (r, dev3))))"

section \<open>Example inputs\<close>

text \<open>
  Two kernel entry points and one auxiliary function as a program would declare them,
  a device compiler that accepts every source and one that accepts none, and a device
  whose buffer 0 holds eight
  bytes \<open>0xFF\<close>; the evaluations below run the definitions on them.
\<close>

definition fill_kernel :: pyfunc where
  "fill_kernel =
     \<lparr>fn_name = ''fill'', fn_parameters = [(''out'', ListOf [DType ''float''])],
      fn_return_annotation = Empty, fn_doc = Some ''out[thread_id] = 1.0f;''\<rparr>"

definition twice_kernel :: pyfunc where
  "twice_kernel =
     \<lparr>fn_name = ''twice'', fn_parameters = [(''out'', ListOf [DType ''float''])],
      fn_return_annotation = Empty, fn_doc = Some ''out[thread_id] *= 2.0f;''\<rparr>"

definition fill_dispatcher :: Dispatcher where
  "fill_dispatcher =
     \<lparr>kernel_name = ''fill'', signature = [(''out'', ListOf [DType ''float''])], cell = 0\<rparr>"

definition twice_dispatcher :: Dispatcher where
  "twice_dispatcher =
     \<lparr>kernel_name = ''twice'', signature = [(''out'', ListOf [DType ''float''])], cell = 1\<rparr>"

definition two_kernels_source :: string where
  "two_kernels_source =
     prelude @
     ''\<newline>__kernel void fill(__global float* out) {\<newline>int thread_id = get_global_id(0);\<newline>out[thread_id] = 1.0f;\<newline>}\<newline>    '' @
     ''\<newline>__kernel void twice(__global float* out) {\<newline>int thread_id = get_global_id(0);\<newline>out[thread_id] *= 2.0f;\<newline>}\<newline>    ''"

definition accepts_all :: "string \<Rightarrow> bool" where
  "accepts_all src = True"

definition accepts_none :: "string \<Rightarrow> bool" where
  "accepts_none src = False"

definition sample_function :: pyfunc where
  "sample_function =
     \<lparr>fn_name = ''sample'', fn_parameters = [(''img'', ListOf [r_image2d_t])],
      fn_return_annotation = NoneAnn, fn_doc = Some ''return;''\<rparr>"

definition shade_function :: pyfunc where
  "shade_function =
     \<lparr>fn_name = ''shade'', fn_parameters = [(''uv'', DType ''float2'')],
      fn_return_annotation = DType ''float4'', fn_doc = Some ''return (float4)(uv, 0, 1);''\<rparr>"

definition eight_bytes :: Buffer where
  "eight_bytes = \<lparr>buf_id = 0, buf_offset = 0, buf_size = 8\<rparr>"

definition ones_device :: device where
  "ones_device =
     \<lparr>contents = (\<lambda>i. [255, 255, 255, 255, 255, 255, 255, 255]),
      image_fills = [], mappings = [], next_handle = 0\<rparr>"

definition read_all :: "mapped_array \<Rightarrow> device \<Rightarrow> (error + byte list) \<times> device" where
  \<comment> \<open>a body of the \<^verbatim>\<open>with\<close> statement that copies the mapped bytes\<close>
  "read_all m dev = (Inr (read_bytes dev m), dev)"

definition failing_body :: "mapped_array \<Rightarrow> device \<Rightarrow> (error + byte list) \<times> device" where
  \<comment> \<open>a body of the \<^verbatim>\<open>with\<close> statement that raises\<close>
  "failing_body m dev = (Inl (Exception ''boom''), dev)"

section \<open>Shared lemmas\<close>

lemma and_then_Inr: "and_then r f = Inr y \<longleftrightarrow> (\<exists>x. r = Inr x \<and> f x = Inr y)"
  by (cases r) auto

lemma and_then_Inl:
  "and_then r f = Inl e \<longleftrightarrow> r = Inl e \<or> (\<exists>x. r = Inr x \<and> f x = Inl e)"
  by (cases r) auto

lemmas np_defs = np_array_def view_def expand_dims_def reshape_def ravel_def item_def
  item_float_def slice_last_def

lemmas dot_defs = dot_def field_def np_mul_def np_add_def np_div_def

lemmas gen_defs = kernel_main_def kernel_function_def get_signature_def
  get_annotation_as_cltype_def getdoc_def initial_state_def

lemmas mem_defs = clear_def enqueue_fill_buffer_def mapped_enter_def mapped_exit_def
  with_mapped_def enqueue_map_buffer_def new_mapping_def release_def read_bytes_def

subsection \<open>Conversion to float32\<close>

lemma round_half_even_of_int: "round_half_even (of_int n) = n"
  by (simp add: round_half_even_def)


text \<open>An integer of magnitude below \<open>2 ^ 24\<close> is a float32 value.\<close>

lemma to_float32_small_int:
  assumes "m \<noteq> 0" and "\<bar>m\<bar> < 2 ^ 24"
  shows "to_float32 (of_int m) = of_int m"
proof -
  let ?y = "\<bar>real_of_int m\<bar>"
  define e where "e = \<lfloor>log 2 ?y\<rfloor>"
  have y1: "1 \<le> ?y" using assms(1) by (simp flip: of_int_abs)
  have y2: "?y < 2 ^ 24"
    using assms(2) by (metis of_int_abs of_int_less_numeral_power_cancel_iff)
  have "0 \<le> log 2 ?y" using y1 by simp
  then have e0: "0 \<le> e" by (simp add: e_def)
  have l24: "log 2 ((2::real) ^ 24) = real 24"
    by (rule log_pow_cancel) simp_all
  have "log 2 ?y < log 2 (2 ^ 24)"
    using y1 y2 by (subst log_less_cancel_iff) auto
  with l24 have "log 2 ?y < 24" by simp
  then have e23: "e \<le> 23" unfolding e_def by linarith
  define n where "n = nat (23 - e)"
  have ulp: "pow2 (e - 23) = 1 / 2 ^ n"
    using e23 by (auto simp add: pow2_def n_def)
  have q: "real_of_int m / (1 / 2 ^ n) = of_int (m * 2 ^ n)"
    by simp
  have emax: "max e (- 126) = e"
    using e0 by simp
  have "to_float32 (of_int m)
        = of_int (round_half_even (real_of_int m / pow2 (e - 23))) * pow2 (e - 23)"
    using assms(1) by (simp add: to_float32_def Let_def e_def [symmetric] emax)
  also have "\<dots> = of_int (m * 2 ^ n) * (1 / 2 ^ n)"
    unfolding ulp q round_half_even_of_int ..
  also have "\<dots> = of_int m" by simp
  finally show ?thesis .
qed

lemma to_float32_0 [simp]: "to_float32 0 = 0"
  by (simp add: to_float32_def)

lemma to_float32_1 [simp]: "to_float32 1 = 1"
  using to_float32_small_int [of 1] by simp

lemma to_float32_numeral [simp]:
  "(numeral n :: int) < 2 ^ 24 \<Longrightarrow> to_float32 (numeral n) = numeral n"
  using to_float32_small_int [of "numeral n"] by simp

lemma to_float32_neg_numeral [simp]:
  "(numeral n :: int) < 2 ^ 24 \<Longrightarrow> to_float32 (- numeral n) = - numeral n"
  using to_float32_small_int [of "- numeral n"] by simp


lemma map_to_float32_exact: "map to_float32 cs = cs \<longleftrightarrow> list_all (\<lambda>c. to_float32 c = c) cs"
  by (induction cs) auto

section \<open>Vector and matrix values\<close>

subsection \<open>Constructors and \<open>to_array\<close>\<close>

lemma to_array_float3_value:
  "length cs = 3 \<Longrightarrow>
   to_array (Array (NDArray float3 [] (cs @ [p]))) = Inr (NDArray float32 [3] cs)"
  by (simp add: np_defs)

lemma make_from_array_is_tuple:
  "length xs = 4 \<Longrightarrow> make_float4 (FromArray (NDArray float32 [4] xs)) = Inr (PyTuple xs)"
  by (simp add: np_defs)




subsection \<open>\<open>matmul\<close>\<close>

text \<open>
  The two assertions of \<open>matmul\<close>, and the product it computes for one vector or one
  matrix: the entries are the row-by-matrix products, handed back by
  \<^verbatim>\<open>.item()\<close> as a plain tuple.
\<close>

lemma matmul_first_argument:
  "get_dtype a = Inr dt \<Longrightarrow> dt \<noteq> float4 \<Longrightarrow> dt \<noteq> float4x4 \<Longrightarrow>
   matmul a b = Inl (AssertionError ''First vector must be a float4 or a matrix float4x4'')"
  by (simp add: matmul_def)

lemma matmul_second_argument:
  "get_dtype a = Inr dt \<Longrightarrow> dt = float4 \<or> dt = float4x4 \<Longrightarrow> get_dtype b = Inr dt' \<Longrightarrow>
   dt' \<noteq> float4x4 \<Longrightarrow>
   matmul a b = Inl (AssertionError ''Second argument must be a matrix'')"
  by (auto simp add: matmul_def)

lemma matmul_vector:
  assumes "length v = 4" and "length m = 16"
  shows "matmul (Array (NDArray float4 [] v)) (Array (NDArray float4x4 [] m))
         = Inr (PyTuple (vecmat v m))"
  using assms by (simp add: matmul_def matmul_op_def np_defs)

lemma matmul_matrix:
  assumes "length a = 16" and "length m = 16"
  shows "matmul (Array (NDArray float4x4 [] a)) (Array (NDArray float4x4 [] m))
         = Inr (PyTuple (vecmat (take 4 a) m @ vecmat (take 4 (drop 4 a)) m
                   @ vecmat (take 4 (drop 8 a)) m @ vecmat (take 4 (drop 12 a)) m))"
  using assms by (simp add: matmul_def matmul_op_def np_defs upt_rec)

lemma matmul_of_tuple: "matmul (PyTuple xs) b = Inl AttributeError"
  by (simp add: matmul_def)

text \<open>
  \<^bold>\<open>Claim C6\<close> says that \<open>matmul(make_float4(0,0,0,1), translate(5,-3,2))\<close> equals
  \<open>make_float4(5,-3,2,1)\<close>. The code computes the right entries but returns them as the
  plain tuple \<open>(5, -3, 2, 1)\<close>: \<open>matmul\<close> ends in \<open>make_float4(c)\<close> on an array, which
  returns \<^verbatim>\<open>c.ravel().view(float4).item()\<close>. \<open>make_float4(5,-3,2,1)\<close> is a 0-d array
  of type \<open>float4\<close>. The tuple has no \<^verbatim>\<open>.shape\<close> and no \<^verbatim>\<open>.dtype\<close>, so \<open>to_array\<close> and
  a second \<open>matmul\<close> raise on it.
\<close>

theorem matmul_translate_returns_tuple:
  "and_then (make_float4 (Components [0, 0, 0, 1])) (\<lambda>p.
     and_then (translate [PyFloat 5, PyFloat (- 3), PyFloat 2]) (\<lambda>t. matmul p t))
     = Inr (PyTuple [5, - 3, 2, 1])
   \<and> make_float4 (Components [5, - 3, 2, 1]) = Inr (Array (NDArray float4 [] [5, - 3, 2, 1]))
   \<and> to_array (PyTuple [5, - 3, 2, 1]) = Inl AttributeError
   \<and> and_then identity (\<lambda>i. matmul (PyTuple [5, - 3, 2, 1]) i) = Inl AttributeError"
  by (simp add: matmul_def matmul_op_def vecmat_def translation_def identity_def np_defs)

subsection \<open>\<open>dot\<close> and \<open>normalize\<close>\<close>

text \<open>
  On a \<open>float3\<close> value \<open>normalize\<close> divides once by the length (through
  \<open>make_float3\<close>), and the result has unit length. On the other types it divides the
  already divided array by the length again, before reinterpreting it.
\<close>

lemma dot_float3:
  "dot (Array (NDArray float3 [] [x, y, z, p])) (Array (NDArray float3 [] [x', y', z', p']))
   = Inr (x * x' + y * y' + z * z')"
  by (simp add: dot_defs np_defs)

lemma normalize_float3:
  "normalize_vec (Array (NDArray float3 [] [x, y, z, p]))
   = Inr (Array (NDArray float3 []
       [x / sqrt (x * x + y * y + z * z), y / sqrt (x * x + y * y + z * z),
        z / sqrt (x * x + y * y + z * z), 0]))"
  by (simp add: normalize_vec_def dot_defs np_defs Let_def)

lemma normalize_float3_unit:
  assumes "x \<noteq> 0 \<or> y \<noteq> 0 \<or> z \<noteq> 0"
  shows "and_then (normalize_vec (Array (NDArray float3 [] [x, y, z, p]))) (\<lambda>n. dot n n) = Inr 1"
proof -
  let ?d = "x * x + y * y + z * z"
  define s where "s = sqrt ?d"
  have nonneg: "0 \<le> ?d"
    by simp
  have nonzero: "?d \<noteq> 0"
    using assms by (simp add: add_nonneg_eq_0_iff)
  have s2: "s * s = ?d"
    using nonneg by (simp add: s_def)
  have "x / s * (x / s) + y / s * (y / s) + z / s * (z / s) = ?d / (s * s)"
    by (simp add: add_divide_distrib)
  also have "\<dots> = 1"
    using s2 nonzero by simp
  finally have unit: "x / s * (x / s) + y / s * (y / s) + z / s * (z / s) = 1" .
  show ?thesis
    by (simp only: normalize_float3 and_then.simps dot_float3 unit [unfolded s_def])
qed

lemma normalize_float4:
  assumes "0 < x * x + y * y + z * z + w * w"
  shows "normalize_vec (Array (NDArray float4 [] [x, y, z, w]))
   = Inr (Array (NDArray float4 [1]
       [x / (x * x + y * y + z * z + w * w), y / (x * x + y * y + z * z + w * w),
        z / (x * x + y * y + z * z + w * w), w / (x * x + y * y + z * z + w * w)]))"
  using assms by (simp add: normalize_vec_def dot_defs np_defs Let_def)

text \<open>
  \<^bold>\<open>Claim C1\<close> says that \<open>normalize(v)\<close> is \<open>v / sqrt(dot(v, v))\<close> and has
  \<open>dot(normalize(v), normalize(v)) = 1\<close> for every nonzero vector of a supported type.
  For \<open>make_float2(2, 0)\<close>, of length 2, the code returns \<open>(1/2, 0)\<close> instead of
  \<open>(1, 0)\<close>, and the dot product of the result with itself is \<open>1/4\<close>: the branch for
  \<open>float2\<close> and \<open>float4\<close> divides by the length twice.
\<close>

theorem normalize_float2_divides_twice:
  "and_then (make_float2 (Components [2, 0])) normalize_vec
     = Inr (Array (NDArray float2 [1] [1 / 2, 0]))
   \<and> and_then (and_then (make_float2 (Components [2, 0])) normalize_vec) (\<lambda>n. dot n n)
     = Inr (1 / 4)"
  by (simp add: normalize_vec_def dot_defs np_defs)

section \<open>Declarations\<close>

lemma get_annotation_pointer_rejected:
  "get_annotation_as_cltype (ListOf [DType c]) True
   = Inl (AssertionError ''Can not use pointers in kernel auxiliary functions'')"
  by (simp add: get_annotation_as_cltype_def)

lemma get_annotation_string_pointer:
  "get_annotation_as_cltype (ListOf [Str s]) b = Inr s"
  by (simp add: get_annotation_as_cltype_def)

text \<open>
  \<^bold>\<open>Claim C4\<close> says that an auxiliary function with a pointer parameter \<open>[T]\<close> is
  refused for every \<open>T\<close>, a string included. \<open>_get_annotation_as_cltype\<close> returns a
  string element before it reaches the assertion against pointers, so
  \<^verbatim>\<open>def sample(img: [r_image2d_t]) -> None\<close> is declared without an error, and its
  parameter is written as \<open>read_only image2d_t img\<close>.
\<close>

theorem kernel_function_accepts_string_pointer:
  "get_annotation_as_cltype (ListOf [r_image2d_t]) True = Inr ''read_only image2d_t''
   \<and> kernel_function sample_function initial_state
      = Inr (wrapper,
             initial_state\<lparr>code := prelude @
               ''\<newline>void sample(read_only image2d_t img) {\<newline>return;\<newline>}\<newline>''\<rparr>)"
  by (simp add: gen_defs r_image2d_t_def sample_function_def)

text \<open>
  \<^bold>\<open>Claim C8.\<close> Whatever function was declared with \<open>kernel_function\<close> and whatever
  the arguments, calling the value the declaration returned raises
  \<^verbatim>\<open>Exception("Can not call to this function from host.")\<close>.
\<close>

theorem wrapper_call_fails:
  "kernel_function f st = Inr (w, st') \<Longrightarrow>
   w args = Inl (Exception ''Can not call to this function from host.'')"
  by (auto simp add: kernel_function_def wrapper_def Let_def and_then_Inr)

theorem wrapper_call_fails_witness:
  "kernel_function shade_function initial_state
     = Inr (wrapper, initial_state\<lparr>code := prelude @
          ''\<newline>float4 shade(float2 uv) {\<newline>return (float4)(uv, 0, 1);\<newline>}\<newline>''\<rparr>)
   \<and> wrapper [PyInt 1] = Inl (Exception ''Can not call to this function from host.'')"
proof -
  have k: "kernel_function shade_function initial_state
     = Inr (wrapper, initial_state\<lparr>code := prelude @
          ''\<newline>float4 shade(float2 uv) {\<newline>return (float4)(uv, 0, 1);\<newline>}\<newline>''\<rparr>)"
    by (simp add: gen_defs shade_function_def)
  from wrapper_call_fails [OF k] k show ?thesis by simp
qed

text \<open>
  \<^bold>\<open>Claim C10.\<close> The annotation mapping renders \<^verbatim>\<open>None\<close> as \<open>void\<close>, yet
  \<open>kernel_main\<close> refuses a function whose return annotation is \<^verbatim>\<open>None\<close>, as it
  refuses every return annotation: the declaration fails with an \<^verbatim>\<open>AssertionError\<close>
  (with the message \<open>Kernel main function must return void\<close> when all parameters are
  annotated), and it succeeds only for a function without a return annotation.
\<close>

theorem kernel_main_rejects_return_annotation:
  "get_annotation_as_cltype NoneAnn b = Inr ''void''
   \<and> (fn_return_annotation f = NoneAnn \<longrightarrow>
        (\<exists>msg. kernel_main f st = Inl (AssertionError msg)))
   \<and> (fn_return_annotation f \<noteq> Empty \<longrightarrow>
        (\<exists>msg. kernel_main f st = Inl (AssertionError msg)))
   \<and> (list_all (\<lambda>p. snd p \<noteq> Empty) (fn_parameters f) \<and> fn_return_annotation f = NoneAnn \<longrightarrow>
        kernel_main f st = Inl (AssertionError ''Kernel main function must return void''))
   \<and> (kernel_main f st = Inr r \<longrightarrow> fn_return_annotation f = Empty)"
  by (auto simp add: kernel_main_def get_signature_def get_annotation_as_cltype_def and_then_Inr
      split: if_splits)

theorem kernel_main_rejects_return_annotation_witness:
  "get_annotation_as_cltype NoneAnn False = Inr ''void''
   \<and> kernel_main (fill_kernel\<lparr>fn_return_annotation := NoneAnn\<rparr>) initial_state
       = Inl (AssertionError ''Kernel main function must return void'')
   \<and> kernel_main fill_kernel initial_state
       = Inr (fill_dispatcher,
              initial_state\<lparr>code := prelude @
                ''\<newline>__kernel void fill(__global float* out) {\<newline>int thread_id = get_global_id(0);\<newline>out[thread_id] = 1.0f;\<newline>}\<newline>    '',
                programs := [None]\<rparr>)"
  using kernel_main_rejects_return_annotation [of False
      "fill_kernel\<lparr>fn_return_annotation := NoneAnn\<rparr>" initial_state]
  by (simp add: gen_defs fill_kernel_def fill_dispatcher_def)

section \<open>Dispatch\<close>

text \<open>
  What one invocation does, by the state of the dispatcher's own program and by
  whether the arguments resolve.
\<close>

lemma dispatch_call_cached:
  assumes "programs st ! cell d = Some p"
  shows "dispatch_call compiles (d, n) args st =
     (case resolve_args args (signature d) of
        Inl e \<Rightarrow> (Inl e, st)
      | Inr rs \<Rightarrow> (Inr (), st\<lparr>enqueued := enqueued st @ [(p, kernel_name d, [n], rs)]\<rparr>))"
  using assms by (simp add: dispatch_call_def)

lemma dispatch_call_uncompiled:
  assumes "programs st ! cell d = None" and "compiles (code st)"
  shows "dispatch_call compiles (d, n) args st =
     (case resolve_args args (signature d) of
        Inl e \<Rightarrow>
          (Inl e, st\<lparr>programs := (programs st)[cell d := Some (Program (code st))],
                       builds := builds st @ [code st]\<rparr>)
      | Inr rs \<Rightarrow>
          (Inr (), st\<lparr>programs := (programs st)[cell d := Some (Program (code st))],
                       builds := builds st @ [code st],
                       enqueued := enqueued st @
                         [(Program (code st), kernel_name d, [n], rs)]\<rparr>))"
  using assms by (simp add: dispatch_call_def Let_def split: sum.splits)

lemma dispatch_call_build_fails:
  assumes "programs st ! cell d = None" and "\<not> compiles (code st)"
  shows "dispatch_call compiles (d, n) args st = (Inl (CLError ''BUILD_PROGRAM_FAILURE''), st)"
  using assms by (simp add: dispatch_call_def)

text \<open>
  \<^bold>\<open>Claim C3\<close> says that the program is compiled at most once per process and shared
  by all dispatchers. Here two entry points are declared and each dispatcher is
  invoked once: the source is handed to the compiler twice, once by each dispatcher.
\<close>

theorem program_shared_counterexample:
  "kernel_main fill_kernel initial_state
     = Inr (fill_dispatcher,
            \<lparr>code = prelude @
               ''\<newline>__kernel void fill(__global float* out) {\<newline>int thread_id = get_global_id(0);\<newline>out[thread_id] = 1.0f;\<newline>}\<newline>    '',
             programs = [None], builds = [], enqueued = []\<rparr>)
   \<and> kernel_main twice_kernel
       \<lparr>code = prelude @
          ''\<newline>__kernel void fill(__global float* out) {\<newline>int thread_id = get_global_id(0);\<newline>out[thread_id] = 1.0f;\<newline>}\<newline>    '',
        programs = [None], builds = [], enqueued = []\<rparr>
     = Inr (twice_dispatcher,
            \<lparr>code = two_kernels_source, programs = [None, None], builds = [], enqueued = []\<rparr>)
   \<and> dispatch_call accepts_all (Dispatcher_getitem fill_dispatcher (Threads 4)) [ClArray 0]
       \<lparr>code = two_kernels_source, programs = [None, None], builds = [], enqueued = []\<rparr>
     = (Inr (),
        \<lparr>code = two_kernels_source,
         programs = [Some (Program two_kernels_source), None],
         builds = [two_kernels_source],
         enqueued = [(Program two_kernels_source, ''fill'', [4], [Data 0])]\<rparr>)
   \<and> dispatch_call accepts_all (Dispatcher_getitem twice_dispatcher (Threads 4)) [ClArray 0]
       \<lparr>code = two_kernels_source,
        programs = [Some (Program two_kernels_source), None],
        builds = [two_kernels_source],
        enqueued = [(Program two_kernels_source, ''fill'', [4], [Data 0])]\<rparr>
     = (Inr (),
        \<lparr>code = two_kernels_source,
         programs = [Some (Program two_kernels_source), Some (Program two_kernels_source)],
         builds = [two_kernels_source, two_kernels_source],
         enqueued = [(Program two_kernels_source, ''fill'', [4], [Data 0]),
                     (Program two_kernels_source, ''twice'', [4], [Data 0])]\<rparr>)"
  by (simp add: gen_defs dispatch_call_def Dispatcher_getitem_def accepts_all_def
      resolve_arg_def fill_kernel_def twice_kernel_def fill_dispatcher_def
      twice_dispatcher_def two_kernels_source_def)

text \<open>
  \<^bold>\<open>Claim C3, amended.\<close> The program is cached per kernel entry point, not per
  process: every dispatcher holds a program of its own.
  \<^item> An invocation of a dispatcher that holds no program hands the entire source buffer,
    as it stands, to the compiler. When the build succeeds the dispatcher holds that
    program from then on, also when the same invocation then fails to resolve its
    arguments; when the arguments resolve, the kernel is launched from that program.
    When the build fails, the invocation fails and changes nothing.
  \<^item> An invocation of a dispatcher that holds a program compiles nothing and changes no
    dispatcher's program, whatever the thread count and the arguments: it launches the
    kernel from the program it holds, or fails without effect when its arguments do
    not resolve.
  \<^item> No invocation changes the program of another dispatcher or the source buffer, so
    the first invocation of every other dispatcher compiles again.
\<close>

theorem program_cached_per_dispatcher:
  "(programs st ! cell d = None \<and> compiles (code st) \<longrightarrow>
      builds (snd (dispatch_call compiles (d, n) args st)) = builds st @ [code st]
      \<and> programs (snd (dispatch_call compiles (d, n) args st))
          = (programs st)[cell d := Some (Program (code st))]
      \<and> (cell d < length (programs st) \<longrightarrow>
           programs (snd (dispatch_call compiles (d, n) args st)) ! cell d
             = Some (Program (code st)))
      \<and> (resolve_args args (signature d) = Inr rs \<longrightarrow>
           dispatch_call compiles (d, n) args st =
             (Inr (), st\<lparr>programs := (programs st)[cell d := Some (Program (code st))],
                          builds := builds st @ [code st],
                          enqueued := enqueued st @
                            [(Program (code st), kernel_name d, [n], rs)]\<rparr>)))
   \<and> (programs st ! cell d = None \<and> \<not> compiles (code st) \<longrightarrow>
      dispatch_call compiles (d, n) args st = (Inl (CLError ''BUILD_PROGRAM_FAILURE''), st))
   \<and> (programs st ! cell d = Some p \<longrightarrow>
      builds (snd (dispatch_call compiles (d, n) args st)) = builds st
      \<and> programs (snd (dispatch_call compiles (d, n) args st)) = programs st
      \<and> (resolve_args args (signature d) = Inr rs \<longrightarrow>
           dispatch_call compiles (d, n) args st =
             (Inr (), st\<lparr>enqueued := enqueued st @ [(p, kernel_name d, [n], rs)]\<rparr>))
      \<and> (resolve_args args (signature d) = Inl e \<longrightarrow>
           dispatch_call compiles (d, n) args st = (Inl e, st)))
   \<and> (c \<noteq> cell d \<longrightarrow>
      programs (snd (dispatch_call compiles (d, n) args st)) ! c = programs st ! c)
   \<and> code (snd (dispatch_call compiles (d, n) args st)) = code st"
proof -
  have uncompiled:
    "builds (snd (dispatch_call compiles (d, n) args st)) = builds st @ [code st]
      \<and> programs (snd (dispatch_call compiles (d, n) args st))
          = (programs st)[cell d := Some (Program (code st))]
      \<and> (cell d < length (programs st) \<longrightarrow>
           programs (snd (dispatch_call compiles (d, n) args st)) ! cell d
             = Some (Program (code st)))
      \<and> (resolve_args args (signature d) = Inr rs \<longrightarrow>
           dispatch_call compiles (d, n) args st =
             (Inr (), st\<lparr>programs := (programs st)[cell d := Some (Program (code st))],
                          builds := builds st @ [code st],
                          enqueued := enqueued st @
                            [(Program (code st), kernel_name d, [n], rs)]\<rparr>))"
    if "programs st ! cell d = None" and "compiles (code st)"
    using that by (simp add: dispatch_call_uncompiled split: sum.splits)
  have cached:
    "builds (snd (dispatch_call compiles (d, n) args st)) = builds st
      \<and> programs (snd (dispatch_call compiles (d, n) args st)) = programs st
      \<and> (resolve_args args (signature d) = Inr rs \<longrightarrow>
           dispatch_call compiles (d, n) args st =
             (Inr (), st\<lparr>enqueued := enqueued st @ [(p, kernel_name d, [n], rs)]\<rparr>))
      \<and> (resolve_args args (signature d) = Inl e \<longrightarrow>
           dispatch_call compiles (d, n) args st = (Inl e, st))"
    if "programs st ! cell d = Some p"
    using that by (simp add: dispatch_call_cached split: sum.splits)
  have others: "programs (snd (dispatch_call compiles (d, n) args st)) ! c = programs st ! c"
    if "c \<noteq> cell d"
    using that by (auto simp add: dispatch_call_def Let_def split: option.splits sum.splits)
  have source: "code (snd (dispatch_call compiles (d, n) args st)) = code st"
    by (auto simp add: dispatch_call_def Let_def split: option.splits sum.splits)
  from uncompiled cached others source dispatch_call_build_fails [of st d compiles n args]
  show ?thesis by blast
qed

text \<open>
  The witness runs the fill dispatcher: a first invocation whose argument does not fit
  32 bits (the program is built and kept, the invocation fails), then an invocation
  that launches from the kept program without building, then one with another thread
  count and one with a bad argument, both again without building; a first invocation
  with a good argument; and a first invocation under a compiler that rejects the
  source.
\<close>

theorem program_cached_per_dispatcher_witness:
  "dispatch_call accepts_all (fill_dispatcher, 4) [PyInt 4294967296]
       \<lparr>code = two_kernels_source, programs = [None, None], builds = [], enqueued = []\<rparr>
     = (Inl OverflowError,
        \<lparr>code = two_kernels_source, programs = [Some (Program two_kernels_source), None],
         builds = [two_kernels_source], enqueued = []\<rparr>)
   \<and> dispatch_call accepts_all (fill_dispatcher, 4) [ClArray 0]
       \<lparr>code = two_kernels_source, programs = [Some (Program two_kernels_source), None],
        builds = [two_kernels_source], enqueued = []\<rparr>
     = (Inr (),
        \<lparr>code = two_kernels_source, programs = [Some (Program two_kernels_source), None],
         builds = [two_kernels_source],
         enqueued = [(Program two_kernels_source, ''fill'', [4], [Data 0])]\<rparr>)
   \<and> dispatch_call accepts_all (fill_dispatcher, 7) [ClArray 1]
       \<lparr>code = two_kernels_source, programs = [Some (Program two_kernels_source), None],
        builds = [two_kernels_source],
        enqueued = [(Program two_kernels_source, ''fill'', [4], [Data 0])]\<rparr>
     = (Inr (),
        \<lparr>code = two_kernels_source, programs = [Some (Program two_kernels_source), None],
         builds = [two_kernels_source],
         enqueued = [(Program two_kernels_source, ''fill'', [4], [Data 0]),
                     (Program two_kernels_source, ''fill'', [7], [Data 1])]\<rparr>)
   \<and> dispatch_call accepts_all (fill_dispatcher, 7) [PyInt 4294967296]
       \<lparr>code = two_kernels_source, programs = [Some (Program two_kernels_source), None],
        builds = [two_kernels_source],
        enqueued = [(Program two_kernels_source, ''fill'', [4], [Data 0])]\<rparr>
     = (Inl OverflowError,
        \<lparr>code = two_kernels_source, programs = [Some (Program two_kernels_source), None],
         builds = [two_kernels_source],
         enqueued = [(Program two_kernels_source, ''fill'', [4], [Data 0])]\<rparr>)
   \<and> dispatch_call accepts_all (fill_dispatcher, 4) [ClArray 0]
       \<lparr>code = two_kernels_source, programs = [None, None], builds = [], enqueued = []\<rparr>
     = (Inr (),
        \<lparr>code = two_kernels_source, programs = [Some (Program two_kernels_source), None],
         builds = [two_kernels_source],
         enqueued = [(Program two_kernels_source, ''fill'', [4], [Data 0])]\<rparr>)
   \<and> dispatch_call accepts_none (fill_dispatcher, 4) [ClArray 0]
       \<lparr>code = two_kernels_source, programs = [None, None], builds = [], enqueued = []\<rparr>
     = (Inl (CLError ''BUILD_PROGRAM_FAILURE''),
        \<lparr>code = two_kernels_source, programs = [None, None], builds = [], enqueued = []\<rparr>)"
  using
    program_cached_per_dispatcher [of
      "\<lparr>code = two_kernels_source, programs = [None, None], builds = [], enqueued = []\<rparr>"
      fill_dispatcher accepts_none 4 "[ClArray 0]" "[Data 0]" "Program two_kernels_source"
      OverflowError 1]
    program_cached_per_dispatcher [of
      "\<lparr>code = two_kernels_source, programs = [None, None], builds = [], enqueued = []\<rparr>"
      fill_dispatcher accepts_all 4 "[PyInt 4294967296]" "[Data 0]" "Program two_kernels_source"
      OverflowError 1]
    program_cached_per_dispatcher [of
      "\<lparr>code = two_kernels_source, programs = [None, None], builds = [], enqueued = []\<rparr>"
      fill_dispatcher accepts_all 4 "[ClArray 0]" "[Data 0]" "Program two_kernels_source"
      OverflowError 1]
    program_cached_per_dispatcher [of
      "\<lparr>code = two_kernels_source, programs = [Some (Program two_kernels_source), None],
        builds = [two_kernels_source], enqueued = []\<rparr>"
      fill_dispatcher accepts_all 4 "[ClArray 0]" "[Data 0]" "Program two_kernels_source"
      OverflowError 1]
    program_cached_per_dispatcher [of
      "\<lparr>code = two_kernels_source, programs = [Some (Program two_kernels_source), None],
        builds = [two_kernels_source],
        enqueued = [(Program two_kernels_source, ''fill'', [4], [Data 0])]\<rparr>"
      fill_dispatcher accepts_all 7 "[PyInt 4294967296]" "[Data 1]" "Program two_kernels_source"
      OverflowError 1]
  by (simp add: dispatch_call_def accepts_all_def accepts_none_def resolve_arg_def
      fill_dispatcher_def)

text \<open>
  \<^bold>\<open>Claim C7.\<close> Indexing a dispatcher by a shape whose components multiply to \<open>n\<close>
  gives the same closure as indexing it by the integer \<open>n\<close>, so both do the same.
  A dispatcher indexed by a shape, invoked with arguments that resolve, enqueues its
  kernel with the one-element global size holding the product of the shape: from the
  program it holds, or, when it holds none and the source compiles, from the program it
  builds. Indexed by an integer \<open>n\<close>, the global size holds \<open>n\<close>. An invocation that
  succeeds has enqueued exactly that launch.
\<close>

theorem dispatch_thread_count:
  "(prod_list sh = n \<longrightarrow>
      Dispatcher_getitem d (Shape sh) = Dispatcher_getitem d (Threads n)
      \<and> dispatch_call compiles (Dispatcher_getitem d (Shape sh)) args st
          = dispatch_call compiles (Dispatcher_getitem d (Threads n)) args st)
   \<and> (resolve_args args (signature d) = Inr rs \<and> programs st ! cell d = Some p \<longrightarrow>
      dispatch_call compiles (Dispatcher_getitem d (Shape sh)) args st
        = (Inr (), st\<lparr>enqueued := enqueued st @
                         [(p, kernel_name d, [prod_list sh], rs)]\<rparr>)
      \<and> dispatch_call compiles (Dispatcher_getitem d (Threads n)) args st
        = (Inr (), st\<lparr>enqueued := enqueued st @ [(p, kernel_name d, [n], rs)]\<rparr>))
   \<and> (resolve_args args (signature d) = Inr rs \<and> programs st ! cell d = None
        \<and> compiles (code st) \<longrightarrow>
      enqueued (snd (dispatch_call compiles (Dispatcher_getitem d (Shape sh)) args st))
        = enqueued st @ [(Program (code st), kernel_name d, [prod_list sh], rs)]
      \<and> fst (dispatch_call compiles (Dispatcher_getitem d (Shape sh)) args st) = Inr ()
      \<and> enqueued (snd (dispatch_call compiles (Dispatcher_getitem d (Threads n)) args st))
        = enqueued st @ [(Program (code st), kernel_name d, [n], rs)]
      \<and> fst (dispatch_call compiles (Dispatcher_getitem d (Threads n)) args st) = Inr ())
   \<and> (dispatch_call compiles (Dispatcher_getitem d (Shape sh)) args st = (Inr (), st') \<longrightarrow>
      (\<exists>q rs'. enqueued st' = enqueued st @ [(q, kernel_name d, [prod_list sh], rs')]))"
  by (auto simp add: Dispatcher_getitem_def dispatch_call_cached dispatch_call_uncompiled
      dispatch_call_def Let_def split: option.splits sum.splits if_splits)

text \<open>
  The witness indexes the fill dispatcher by \<open>(3, 4)\<close> and by \<open>12\<close>, once before its
  program is built and once after.
\<close>

theorem dispatch_thread_count_witness:
  "Dispatcher_getitem fill_dispatcher (Shape [3, 4]) = Dispatcher_getitem fill_dispatcher (Threads 12)
   \<and> dispatch_call accepts_all (Dispatcher_getitem fill_dispatcher (Shape [3, 4])) [ClArray 0]
        \<lparr>code = two_kernels_source, programs = [None, None], builds = [], enqueued = []\<rparr>
      = (Inr (),
         \<lparr>code = two_kernels_source,
          programs = [Some (Program two_kernels_source), None],
          builds = [two_kernels_source],
          enqueued = [(Program two_kernels_source, ''fill'', [12], [Data 0])]\<rparr>)
   \<and> dispatch_call accepts_all (Dispatcher_getitem fill_dispatcher (Threads 12)) [ClArray 0]
        \<lparr>code = two_kernels_source, programs = [None, None], builds = [], enqueued = []\<rparr>
      = (Inr (),
         \<lparr>code = two_kernels_source,
          programs = [Some (Program two_kernels_source), None],
          builds = [two_kernels_source],
          enqueued = [(Program two_kernels_source, ''fill'', [12], [Data 0])]\<rparr>)
   \<and> dispatch_call accepts_all (Dispatcher_getitem fill_dispatcher (Shape [3, 4])) [ClArray 0]
        \<lparr>code = two_kernels_source,
         programs = [Some (Program two_kernels_source), None],
         builds = [two_kernels_source],
         enqueued = [(Program two_kernels_source, ''fill'', [12], [Data 0])]\<rparr>
      = (Inr (),
         \<lparr>code = two_kernels_source,
          programs = [Some (Program two_kernels_source), None],
          builds = [two_kernels_source],
          enqueued = [(Program two_kernels_source, ''fill'', [12], [Data 0]),
                      (Program two_kernels_source, ''fill'', [12], [Data 0])]\<rparr>)
   \<and> dispatch_call accepts_all (Dispatcher_getitem fill_dispatcher (Threads 12)) [ClArray 0]
        \<lparr>code = two_kernels_source,
         programs = [Some (Program two_kernels_source), None],
         builds = [two_kernels_source],
         enqueued = [(Program two_kernels_source, ''fill'', [12], [Data 0])]\<rparr>
      = (Inr (),
         \<lparr>code = two_kernels_source,
          programs = [Some (Program two_kernels_source), None],
          builds = [two_kernels_source],
          enqueued = [(Program two_kernels_source, ''fill'', [12], [Data 0]),
                      (Program two_kernels_source, ''fill'', [12], [Data 0])]\<rparr>)"
  using
    dispatch_thread_count [of "[3, 4]" 12 fill_dispatcher accepts_all "[ClArray 0]"
      "\<lparr>code = two_kernels_source, programs = [None, None], builds = [], enqueued = []\<rparr>"
      "[Data 0]" "Program two_kernels_source"]
    dispatch_thread_count [of "[3, 4]" 12 fill_dispatcher accepts_all "[ClArray 0]"
      "\<lparr>code = two_kernels_source,
         programs = [Some (Program two_kernels_source), None],
         builds = [two_kernels_source],
         enqueued = [(Program two_kernels_source, ''fill'', [12], [Data 0])]\<rparr>"
      "[Data 0]" "Program two_kernels_source"]
  by (simp add: dispatch_call_def Dispatcher_getitem_def accepts_all_def resolve_arg_def
      fill_dispatcher_def)

section \<open>Device memory\<close>

lemma clear_buffer_tail_unchanged:
  assumes "clear (IsBuffer b) v dev = (Inr (), dev')"
  shows "drop (length (val_bytes v)) (contents dev' (buf_id b))
         = drop (length (val_bytes v)) (contents dev (buf_id b))"
    and "take (length (val_bytes v)) (contents dev' (buf_id b)) = val_bytes v"
  using assms by (auto simp add: clear_def enqueue_fill_buffer_def split: if_splits)

text \<open>
  \<^bold>\<open>Claim C2\<close> says that \<open>clear(b)\<close> fills the whole buffer, so that a scoped map
  reads zero bytes only. \<open>clear\<close> passes \<^verbatim>\<open>value.nbytes\<close> as the size of the region to
  fill: on a buffer of eight bytes \<open>0xFF\<close>, the default value zeroes the first four
  bytes and the map reads \<open>0xFF\<close> in the other four.
\<close>

theorem clear_fills_only_value_bytes:
  "clear (IsBuffer eight_bytes) float32_zero ones_device
     = (Inr (), ones_device\<lparr>contents := (contents ones_device)
                                (0 := [0, 0, 0, 0, 255, 255, 255, 255])\<rparr>)
   \<and> fst (with_mapped (IsBuffer eight_bytes) read_all
            (snd (clear (IsBuffer eight_bytes) float32_zero ones_device)))
     = Inr [0, 0, 0, 0, 255, 255, 255, 255]"
  by (simp add: mem_defs float32_zero_def eight_bytes_def ones_device_def read_all_def)

lemma mapped_enter_new:
  assumes "mapped_enter b dev = Inr (m, dev1)"
  shows "map_handle m = next_handle dev
         \<and> (\<exists>mem. mappings dev1 = (next_handle dev, mem) # mappings dev)"
  using assms
  by (auto simp add: mapped_enter_def enqueue_map_buffer_def enqueue_map_image_def
      new_mapping_def and_then_Inr Let_def split: mem_object.splits if_splits)

lemma filter_fresh:
  "list_all (\<lambda>p. fst p < h) xs \<Longrightarrow> filter (\<lambda>p. fst p \<noteq> (h::nat)) xs = xs"
  by (induction xs) auto

text \<open>
  \<^bold>\<open>Claim C9.\<close> Once \<^verbatim>\<open>__enter__\<close> has mapped a buffer, an image or a device array,
  the mapping it made is no longer live when the \<^verbatim>\<open>with\<close> statement is left, whatever
  the body did and whether it returned or raised. If the body itself leaves the live
  mappings alone (and handles are fresh), the live mappings after the statement are
  those before it. An exception of the body is not swallowed.
\<close>

theorem mapping_released_on_exit:
  assumes "mapped_enter b dev = Inr (m, dev1)"
  shows "map_handle m \<notin> fst ` set (mappings (snd (with_mapped b body dev)))
         \<and> (list_all (\<lambda>p. fst p < next_handle dev) (mappings dev)
              \<and> mappings (snd (body m dev1)) = mappings dev1
            \<longrightarrow> mappings (snd (with_mapped b body dev)) = mappings dev)
         \<and> (fst (body m dev1) = Inl e \<longrightarrow> (\<exists>e'. fst (with_mapped b body dev) = Inl e'))"
proof -
  obtain r dev2 where body: "body m dev1 = (r, dev2)"
    by (cases "body m dev1")
  from mapped_enter_new [OF assms] obtain mem
    where h: "map_handle m = next_handle dev"
      and maps: "mappings dev1 = (next_handle dev, mem) # mappings dev"
    by blast
  have released: "map_handle m \<notin> fst ` set (mappings (snd (with_mapped b body dev)))"
    using assms body
    by (auto simp add: with_mapped_def mapped_exit_def release_def)
  have restored: "mappings (snd (with_mapped b body dev)) = mappings dev"
    if "list_all (\<lambda>p. fst p < next_handle dev) (mappings dev)"
      and "mappings (snd (body m dev1)) = mappings dev1"
    using that assms body h maps
    by (simp add: with_mapped_def mapped_exit_def release_def filter_fresh)
  have raised: "\<exists>e'. fst (with_mapped b body dev) = Inl e'" if "fst (body m dev1) = Inl e"
    using that assms body
    by (auto simp add: with_mapped_def mapped_exit_def release_def)
  from released restored raised show ?thesis by blast
qed

theorem mapping_released_on_exit_witness:
  "mapped_enter (IsBuffer eight_bytes) ones_device
     = Inr (\<lparr>map_handle = 0, map_mem = 0, map_window = [0, 8], map_shape = [8],
             map_dtype = np_uint8\<rparr>,
            ones_device\<lparr>mappings := [(0, 0)], next_handle := 1\<rparr>)
   \<and> with_mapped (IsBuffer eight_bytes) failing_body ones_device
     = (Inl (Exception ''boom''), ones_device\<lparr>next_handle := 1\<rparr>)
   \<and> 0 \<notin> fst ` set (mappings (snd (with_mapped (IsBuffer eight_bytes) failing_body ones_device)))
   \<and> mappings (snd (with_mapped (IsBuffer eight_bytes) failing_body ones_device))
       = mappings ones_device"
proof -
  have enter: "mapped_enter (IsBuffer eight_bytes) ones_device
     = Inr (\<lparr>map_handle = 0, map_mem = 0, map_window = [0, 8], map_shape = [8],
             map_dtype = np_uint8\<rparr>,
            ones_device\<lparr>mappings := [(0, 0)], next_handle := 1\<rparr>)"
    by (simp add: mem_defs eight_bytes_def ones_device_def)
  have run: "with_mapped (IsBuffer eight_bytes) failing_body ones_device
     = (Inl (Exception ''boom''), ones_device\<lparr>next_handle := 1\<rparr>)"
    by (simp add: mem_defs eight_bytes_def ones_device_def failing_body_def)
  from mapping_released_on_exit [OF enter, of failing_body "Exception ''boom''"] enter run
  show ?thesis
    by (simp add: ones_device_def failing_body_def)
qed

end
